theory Spec2Isabelle
  imports Complex_Main
begin

section \<open>The infoscreen control loop (roles/infoscreen/templates/infoscreen.py)\<close>

text \<open>
  The script drives a 128x32 display and one push-button. Its main loop runs three phases
  per tick on one mutable \<open>AppState\<close> object: \<open>handle_input\<close>, \<open>update_data\<close>,
  \<open>draw_interface\<close>. The model passes the state explicitly, takes everything the script
  reads from outside (the GPIO level, the two shell lookups, the psutil readings) as the
  per-tick record \<open>env\<close>, and returns everything it does to the outside (frames pushed to
  the display, shell commands started, stat providers queried) as a list of effects.
  \<open>exit(0)\<close> and an exception that leaves a phase are the \<open>Inl\<close> branch of the result.
\<close>

subsection \<open>Configuration\<close>

text \<open>
  The script computes the tick constants as \<open>int(seconds / LOOP_SPEED)\<close> with
  \<open>LOOP_SPEED = 0.1\<close>; in IEEE double arithmetic the five quotients are 150.0, 30.0, 60.0,
  5.0 and 20.0, so the constants are the integers below.
\<close>

definition SCREEN_TIMEOUT_TICKS :: int where "SCREEN_TIMEOUT_TICKS = 150"
definition REBOOT_HOLD_TICKS :: int where "REBOOT_HOLD_TICKS = 30"
definition SHUTDOWN_HOLD_TICKS :: int where "SHUTDOWN_HOLD_TICKS = 60"
definition STATS_UPDATE_TICKS :: int where "STATS_UPDATE_TICKS = 5"
definition INFO_CYCLE_TICKS :: int where "INFO_CYCLE_TICKS = 20"

subsection \<open>Enums and state\<close>

datatype MenuState = INFO | REBOOT_WAIT | SHUTDOWN_WAIT

datatype InfoScreen = NETWORK | PERFORMANCE

text \<open>
  The psutil percentages are only stored and drawn, never compared; they are carried as
  numbers of type \<open>real\<close>.
\<close>

record AppState =
  mode :: MenuState
  screen :: InfoScreen
  display_timer :: int
  btn_hold_ticks :: int
  stats_tick :: int
  cycle_tick :: int
  cache_net :: "string \<times> string"
  cache_perf :: "real \<times> real \<times> real"

text \<open>The dataclass defaults: the state \<open>AppState()\<close> that \<open>main\<close> creates.\<close>

definition AppState_init :: AppState where
  "AppState_init =
     \<lparr> mode = INFO, screen = NETWORK,
       display_timer = SCREEN_TIMEOUT_TICKS, btn_hold_ticks = 0,
       stats_tick = STATS_UPDATE_TICKS, cycle_tick = 0,
       cache_net = (''Loading...'', ''...''), cache_perf = (0, 0, 0) \<rparr>"

subsection \<open>The outside world\<close>

text \<open>
  What one tick can read. \<open>pin_level\<close> is the value of \<open>GPIO.input(PIN_BUTTON)\<close>.
  \<open>host_out\<close> and \<open>ip_out\<close> are the decoded, stripped outputs of the two
  \<open>subprocess.check_output\<close> calls, \<open>None\<close> when the call (or the decoding) raises.
  \<open>perf_now\<close> is the triple psutil would return.
\<close>

record env =
  pin_level :: int
  host_out :: "string option"
  ip_out :: "string option"
  perf_now :: "real \<times> real \<times> real"

text \<open>
  What was drawn into the image buffer. The text layout belongs to PIL; a frame records
  which of the script's drawings it holds and the data drawn.
\<close>

datatype frame =
    Blank
  | NetworkLines string string
  | PerformanceLines real real real
  | MessageOverlay string
  | MenuOverlay string

datatype effect =
    Query InfoScreen
  | ShowFrame frame
  | SysCommand string

datatype halt = Exit int | LookupRaised

subsection \<open>Data helpers\<close>

text \<open>
  \<open>get_network_info\<close>: the hostname lookup stands before the \<open>try\<close>, so its exception
  leaves the function; only the IP lookup is inside the \<open>try\<close>, whose handler sets
  \<open>ip = "No IP"\<close>.
\<close>

definition get_network_info :: "string option \<Rightarrow> string option \<Rightarrow> halt + (string \<times> string)" where
  "get_network_info host_result ip_result =
     (case host_result of
        None \<Rightarrow> Inl LookupRaised
      | Some host \<Rightarrow>
          Inr (host, (case ip_result of Some ip \<Rightarrow> ip | None \<Rightarrow> ''No IP'')))"

definition get_performance_info :: "env \<Rightarrow> real \<times> real \<times> real" where
  "get_performance_info e = perf_now e"

definition run_sys_command :: "string \<Rightarrow> effect list" where
  "run_sys_command cmd = [SysCommand cmd]"

subsection \<open>Overlays\<close>

fun starts_with :: "string \<Rightarrow> string \<Rightarrow> bool" where
  "starts_with [] t = True"
| "starts_with (p # ps) [] = False"
| "starts_with (p # ps) (c # cs) = (p = c \<and> starts_with ps cs)"

text \<open>Python's \<open>p in t\<close> on strings.\<close>

fun str_contains :: "string \<Rightarrow> string \<Rightarrow> bool" where
  "str_contains p [] = starts_with p []"
| "str_contains p (c # cs) = (starts_with p (c # cs) \<or> str_contains p cs)"

definition draw_overlay :: "string \<Rightarrow> frame" where
  "draw_overlay text_or_action =
     (if str_contains ''...'' text_or_action then MessageOverlay text_or_action
      else MenuOverlay text_or_action)"

subsection \<open>Phase 1: button input\<close>

definition handle_input :: "env \<Rightarrow> AppState \<Rightarrow> effect list \<times> (halt + AppState)" where
  "handle_input e state =
     (let is_pressed = (pin_level e = 0) in
      if is_pressed then
        (let s1 = state\<lparr> display_timer := SCREEN_TIMEOUT_TICKS,
                         btn_hold_ticks := btn_hold_ticks state + 1 \<rparr>
         in ([], Inr (if btn_hold_ticks s1 \<ge> SHUTDOWN_HOLD_TICKS then s1\<lparr> mode := SHUTDOWN_WAIT \<rparr>
                      else if btn_hold_ticks s1 \<ge> REBOOT_HOLD_TICKS then s1\<lparr> mode := REBOOT_WAIT \<rparr>
                      else s1)))
      else if btn_hold_ticks state > 0 then
        (if mode state = REBOOT_WAIT then
           (ShowFrame (draw_overlay ''Rebooting...'') # run_sys_command ''sudo reboot now'',
            Inl (Exit 0))
         else if mode state = SHUTDOWN_WAIT then
           (ShowFrame (draw_overlay ''Shutting Down...'') # run_sys_command ''sudo shutdown now'',
            Inl (Exit 0))
         else
           ([], Inr (state\<lparr> mode := INFO, screen := NETWORK,
                            cycle_tick := 0, btn_hold_ticks := 0 \<rparr>)))
      else ([], Inr state))"

subsection \<open>Phase 2: screen cycling and data refresh\<close>

definition update_data :: "env \<Rightarrow> AppState \<Rightarrow> effect list \<times> (halt + AppState)" where
  "update_data e state =
     (if display_timer state \<le> 0 \<or> mode state \<noteq> INFO then ([], Inr state)
      else
        let s1 = (if cycle_tick state \<ge> INFO_CYCLE_TICKS then
                    state\<lparr> screen := (if screen state = NETWORK then PERFORMANCE else NETWORK),
                           stats_tick := STATS_UPDATE_TICKS,
                           cycle_tick := 0 \<rparr>
                  else state\<lparr> cycle_tick := cycle_tick state + 1 \<rparr>)
        in
          if stats_tick s1 \<ge> STATS_UPDATE_TICKS then
            (if screen s1 = NETWORK then
               (case get_network_info (host_out e) (ip_out e) of
                  Inl h \<Rightarrow> ([Query NETWORK], Inl h)
                | Inr net \<Rightarrow> ([Query NETWORK], Inr (s1\<lparr> cache_net := net, stats_tick := 0 \<rparr>)))
             else
               ([Query PERFORMANCE],
                Inr (s1\<lparr> cache_perf := get_performance_info e, stats_tick := 0 \<rparr>)))
          else ([], Inr (s1\<lparr> stats_tick := stats_tick s1 + 1 \<rparr>)))"

subsection \<open>Phase 3: rendering\<close>

definition draw_interface :: "AppState \<Rightarrow> effect list \<times> AppState" where
  "draw_interface state =
     (if display_timer state > 0 then
        ([ShowFrame
            (case mode state of
               INFO \<Rightarrow>
                 (if screen state = NETWORK then
                    (case cache_net state of (h, ip) \<Rightarrow> NetworkLines h ip)
                  else
                    (case cache_perf state of (c, m, d) \<Rightarrow> PerformanceLines c m d))
             | REBOOT_WAIT \<Rightarrow> draw_overlay ''REBOOT''
             | SHUTDOWN_WAIT \<Rightarrow> draw_overlay ''SHUTDOWN'')],
         state\<lparr> display_timer := display_timer state - 1 \<rparr>)
      else ([ShowFrame Blank], state))"

subsection \<open>The main loop\<close>

text \<open>
  One iteration of the \<open>while True\<close> body of \<open>main\<close>: the three phases in order; a phase
  that exits or raises ends the iteration and the loop. The splash screen before the loop,
  the sleep between two iterations and the cleanup in \<open>finally\<close> change no field of the
  state and are left out.
\<close>

definition tick :: "env \<Rightarrow> AppState \<Rightarrow> effect list \<times> (halt + AppState)" where
  "tick e state =
     (case handle_input e state of
        (out1, Inl h) \<Rightarrow> (out1, Inl h)
      | (out1, Inr s1) \<Rightarrow>
          (case update_data e s1 of
             (out2, Inl h) \<Rightarrow> (out1 @ out2, Inl h)
           | (out2, Inr s2) \<Rightarrow>
               (case draw_interface s2 of
                  (out3, s3) \<Rightarrow> (out1 @ out2 @ out3, Inr s3))))"

text \<open>The loop over the ticks for which the outside world is given.\<close>

fun run_ticks :: "env list \<Rightarrow> AppState \<Rightarrow> effect list \<times> (halt + AppState)" where
  "run_ticks [] state = ([], Inr state)"
| "run_ticks (e # es) state =
     (case tick e state of
        (out, Inl h) \<Rightarrow> (out, Inl h)
      | (out, Inr s1) \<Rightarrow>
          (case run_ticks es s1 of (outs, r) \<Rightarrow> (out @ outs, r)))"

text \<open>The states the loop can hold between two ticks.\<close>

inductive reachable :: "AppState \<Rightarrow> bool" where
  reachable_init: "reachable AppState_init"
| reachable_tick: "reachable s \<Longrightarrow> tick e s = (out, Inr s') \<Longrightarrow> reachable s'"

subsection \<open>Sample inputs and states\<close>

text \<open>
  Concrete inputs for the evaluations below: a tick with the button up (\<open>pin_level = 1\<close>),
  a tick with the button down (\<open>pin_level = 0\<close>), both with working lookups, and four
  states that the loop reaches from \<open>AppState_init\<close> (shown where they are used).
\<close>

definition idle_sample :: env where
  "idle_sample =
     \<lparr> pin_level = 1, host_out = Some ''node1'', ip_out = Some ''10.0.0.5'',
       perf_now = (12, 40, 71) \<rparr>"

definition held_sample :: env where
  "held_sample =
     \<lparr> pin_level = 0, host_out = Some ''node1'', ip_out = Some ''10.0.0.5'',
       perf_now = (12, 40, 71) \<rparr>"

definition toggle_due_sample :: AppState where
  "toggle_due_sample =
     \<lparr> mode = INFO, screen = NETWORK, display_timer = 130, btn_hold_ticks = 0,
       stats_tick = 1, cycle_tick = 20,
       cache_net = (''node1'', ''10.0.0.5''), cache_perf = (0, 0, 0) \<rparr>"

definition asleep_sample :: AppState where
  "asleep_sample =
     \<lparr> mode = INFO, screen = PERFORMANCE, display_timer = 0, btn_hold_ticks = 0,
       stats_tick = 3, cycle_tick = 3,
       cache_net = (''node1'', ''10.0.0.5''), cache_perf = (12, 40, 71) \<rparr>"

definition short_hold_sample :: AppState where
  "short_hold_sample =
     \<lparr> mode = INFO, screen = NETWORK, display_timer = 149, btn_hold_ticks = 3,
       stats_tick = 2, cycle_tick = 3,
       cache_net = (''node1'', ''10.0.0.5''), cache_perf = (0, 0, 0) \<rparr>"

definition long_hold_sample :: "int \<Rightarrow> MenuState \<Rightarrow> AppState" where
  "long_hold_sample n m =
     \<lparr> mode = m, screen = PERFORMANCE, display_timer = 149, btn_hold_ticks = n,
       stats_tick = 2, cycle_tick = 8,
       cache_net = (''node1'', ''10.0.0.5''), cache_perf = (12, 40, 71) \<rparr>"

text \<open>
  The mode that the threshold ladder of \<open>handle_input\<close> gives to a hold of \<open>k\<close> ticks
  begun in \<open>INFO\<close> mode (shutdown test first, then reboot).
\<close>

abbreviation hold_class :: "int \<Rightarrow> MenuState" where
  "hold_class k \<equiv>
     (if k \<ge> SHUTDOWN_HOLD_TICKS then SHUTDOWN_WAIT
      else if k \<ge> REBOOT_HOLD_TICKS then REBOOT_WAIT else INFO)"

section \<open>Properties\<close>

lemmas tick_consts =
  SCREEN_TIMEOUT_TICKS_def REBOOT_HOLD_TICKS_def SHUTDOWN_HOLD_TICKS_def
  STATS_UPDATE_TICKS_def INFO_CYCLE_TICKS_def

lemmas phase_defs =
  tick_def handle_input_def update_data_def draw_interface_def get_network_info_def
  get_performance_info_def draw_overlay_def run_sys_command_def

subsection \<open>How one tick is put together\<close>

lemma tick_Inr_iff:
  "tick e s = (out, Inr s') \<longleftrightarrow>
     (\<exists>o1 s1 o2 s2 o3. handle_input e s = (o1, Inr s1) \<and> update_data e s1 = (o2, Inr s2)
        \<and> draw_interface s2 = (o3, s') \<and> out = o1 @ o2 @ o3)"
  by (auto simp: tick_def split: prod.splits sum.splits)

lemma update_data_keeps:
  assumes "update_data e s = (out, Inr s')"
  shows "mode s' = mode s" and "btn_hold_ticks s' = btn_hold_ticks s"
    and "display_timer s' = display_timer s"
  using assms
  by (auto simp: update_data_def Let_def split: if_splits sum.splits)

lemma update_data_total:
  "host_out e \<noteq> None \<Longrightarrow> \<exists>out s'. update_data e s = (out, Inr s')"
  by (auto simp: update_data_def Let_def get_network_info_def split: option.splits)

lemma draw_interface_eq:
  "draw_interface s = (out, s') \<Longrightarrow>
     s' = s\<lparr> display_timer :=
               (if display_timer s > 0 then display_timer s - 1 else display_timer s) \<rparr>"
  by (auto simp: draw_interface_def split: if_splits)

lemma draw_interface_counters:
  "stats_tick (snd (draw_interface s)) = stats_tick s"
  "cycle_tick (snd (draw_interface s)) = cycle_tick s"
  by (simp_all add: draw_interface_def)

lemma handle_input_held:
  "pin_level e = 0 \<Longrightarrow>
   handle_input e s =
     ([], Inr (s\<lparr> display_timer := SCREEN_TIMEOUT_TICKS,
                  btn_hold_ticks := btn_hold_ticks s + 1,
                  mode := (if btn_hold_ticks s + 1 \<ge> SHUTDOWN_HOLD_TICKS then SHUTDOWN_WAIT
                           else if btn_hold_ticks s + 1 \<ge> REBOOT_HOLD_TICKS then REBOOT_WAIT
                           else mode s) \<rparr>))"
  by (simp add: handle_input_def Let_def)

lemma run_ticks_reachable:
  "reachable s \<Longrightarrow> run_ticks es s = (out, Inr s') \<Longrightarrow> reachable s'"
proof (induction es arbitrary: s out)
  case Nil
  then show ?case by simp
next
  case (Cons e es)
  from Cons.prems(2) obtain o1 s1 o2 where
    t: "tick e s = (o1, Inr s1)" and r: "run_ticks es s1 = (o2, Inr s')"
    by (auto split: prod.splits sum.splits)
  from reachable_tick [OF Cons.prems(1) t] have "reachable s1" .
  from Cons.IH [OF this r] show ?case .
qed

subsection \<open>Invariants of the loop\<close>

lemma handle_input_bounds:
  assumes "handle_input e s = (out, Inr s')"
    and "cycle_tick s \<le> INFO_CYCLE_TICKS" and "stats_tick s \<le> STATS_UPDATE_TICKS"
  shows "cycle_tick s' \<le> INFO_CYCLE_TICKS \<and> stats_tick s' \<le> STATS_UPDATE_TICKS"
  using assms
  by (auto simp: handle_input_def Let_def tick_consts split: if_splits)

lemma update_data_bounds:
  assumes "update_data e s = (out, Inr s')"
    and "cycle_tick s \<le> INFO_CYCLE_TICKS" and "stats_tick s \<le> STATS_UPDATE_TICKS"
  shows "cycle_tick s' \<le> INFO_CYCLE_TICKS \<and> stats_tick s' \<le> STATS_UPDATE_TICKS"
  using assms
  by (auto simp: update_data_def Let_def tick_consts split: if_splits sum.splits)

lemma tick_bounds:
  assumes "tick e s = (out, Inr s')"
    and "cycle_tick s \<le> INFO_CYCLE_TICKS" and "stats_tick s \<le> STATS_UPDATE_TICKS"
  shows "cycle_tick s' \<le> INFO_CYCLE_TICKS \<and> stats_tick s' \<le> STATS_UPDATE_TICKS"
proof -
  from assms(1) obtain o1 s1 o2 s2 o3 where
    h: "handle_input e s = (o1, Inr s1)" and u: "update_data e s1 = (o2, Inr s2)"
    and d: "draw_interface s2 = (o3, s')"
    by (auto simp: tick_Inr_iff)
  from handle_input_bounds [OF h assms(2,3)]
  have "cycle_tick s1 \<le> INFO_CYCLE_TICKS" "stats_tick s1 \<le> STATS_UPDATE_TICKS"
    by simp_all
  from update_data_bounds [OF u this]
  have "cycle_tick s2 \<le> INFO_CYCLE_TICKS \<and> stats_tick s2 \<le> STATS_UPDATE_TICKS" .
  with draw_interface_eq [OF d] show ?thesis by (simp split: if_splits)
qed

lemma handle_input_timer:
  assumes "handle_input e s = (out, Inr s')" and "0 \<le> display_timer s"
  shows "0 \<le> display_timer s'"
  using assms
  by (auto simp: handle_input_def Let_def tick_consts split: if_splits)

lemma tick_timer:
  assumes "tick e s = (out, Inr s')" and "0 \<le> display_timer s"
  shows "0 \<le> display_timer s'"
proof -
  from assms(1) obtain o1 s1 o2 s2 o3 where
    h: "handle_input e s = (o1, Inr s1)" and u: "update_data e s1 = (o2, Inr s2)"
    and d: "draw_interface s2 = (o3, s')"
    by (auto simp: tick_Inr_iff)
  from handle_input_timer [OF h assms(2)] have "0 \<le> display_timer s1" .
  with update_data_keeps(3) [OF u] have "0 \<le> display_timer s2" by simp
  with draw_interface_eq [OF d] show ?thesis by (simp split: if_splits)
qed

lemma reachable_timer: "reachable s \<Longrightarrow> 0 \<le> display_timer s"
proof (induction rule: reachable.induct)
  case reachable_init
  show ?case by (simp add: AppState_init_def tick_consts)
next
  case (reachable_tick s e out s')
  then show ?case using tick_timer by blast
qed

lemma reach_toggle_due:
  "snd (run_ticks (replicate 20 idle_sample) AppState_init) = Inr toggle_due_sample"
  by code_simp

lemma reach_asleep:
  "snd (run_ticks (replicate 150 idle_sample) AppState_init) = Inr asleep_sample"
  by code_simp

lemma reachable_toggle_due: "reachable toggle_due_sample"
  using run_ticks_reachable [OF reachable_init, of "replicate 20 idle_sample"] reach_toggle_due
  by (metis prod.collapse)

lemma reachable_asleep: "reachable asleep_sample"
  using run_ticks_reachable [OF reachable_init, of "replicate 150 idle_sample"] reach_asleep
  by (metis prod.collapse)

text \<open>
  C10. In every state reachable from the initial state by a sequence of ticks, \<open>cycle_tick\<close>
  is at most \<open>INFO_CYCLE_TICKS\<close> and \<open>stats_tick\<close> is at most \<open>STATS_UPDATE_TICKS\<close>.
\<close>

theorem C10_counters_bounded:
  "reachable s \<Longrightarrow> cycle_tick s \<le> INFO_CYCLE_TICKS \<and> stats_tick s \<le> STATS_UPDATE_TICKS"
proof (induction rule: reachable.induct)
  case reachable_init
  show ?case by (simp add: AppState_init_def tick_consts)
next
  case (reachable_tick s e out s')
  then show ?case using tick_bounds by blast
qed

text \<open>The bound on \<open>cycle_tick\<close> is reached: after 20 idle ticks the counter is 20.\<close>

theorem C10_witness:
  "reachable toggle_due_sample
   \<and> cycle_tick toggle_due_sample = 20
   \<and> cycle_tick toggle_due_sample \<le> INFO_CYCLE_TICKS
   \<and> stats_tick toggle_due_sample \<le> STATS_UPDATE_TICKS"
  using C10_counters_bounded [OF reachable_toggle_due] reachable_toggle_due
  by (simp add: toggle_due_sample_def)

subsection \<open>The initial state\<close>

text \<open>
  C3 (as amended). The state at process start has \<open>mode = INFO\<close>, \<open>screen = NETWORK\<close>, the
  display timer at its maximum, \<open>btn_hold_ticks\<close> and \<open>cycle_tick\<close> zero, \<open>stats_tick\<close>
  at the refresh trigger value (so that the first tick refreshes), and the placeholder
  values in both caches.
\<close>

theorem C3_initial_state:
  "mode AppState_init = INFO \<and> screen AppState_init = NETWORK
   \<and> display_timer AppState_init = SCREEN_TIMEOUT_TICKS
   \<and> btn_hold_ticks AppState_init = 0 \<and> cycle_tick AppState_init = 0
   \<and> stats_tick AppState_init = STATS_UPDATE_TICKS
   \<and> cache_net AppState_init = (''Loading...'', ''...'')
   \<and> cache_perf AppState_init = (0, 0, 0)"
  by (simp add: AppState_init_def)

text \<open>
  C3 as stated fails: not all three tick counters are zero at start, \<open>stats_tick\<close> is 5.
\<close>

theorem C3_counterexample:
  "\<not> (btn_hold_ticks AppState_init = 0 \<and> cycle_tick AppState_init = 0
      \<and> stats_tick AppState_init = 0)"
  by (simp add: AppState_init_def STATS_UPDATE_TICKS_def)

subsection \<open>Holding the button\<close>

lemma held_tick_result:
  assumes "pin_level e = 0" and "tick e s = (out, Inr s')"
  shows "btn_hold_ticks s' = btn_hold_ticks s + 1
       \<and> mode s' = (if btn_hold_ticks s + 1 \<ge> SHUTDOWN_HOLD_TICKS then SHUTDOWN_WAIT
                    else if btn_hold_ticks s + 1 \<ge> REBOOT_HOLD_TICKS then REBOOT_WAIT
                    else mode s)"
proof -
  from assms(2) obtain o1 s1 o2 s2 o3 where
    h: "handle_input e s = (o1, Inr s1)" and u: "update_data e s1 = (o2, Inr s2)"
    and d: "draw_interface s2 = (o3, s')"
    by (auto simp: tick_Inr_iff)
  from h handle_input_held [OF assms(1), of s]
  have s1: "btn_hold_ticks s1 = btn_hold_ticks s + 1"
    "mode s1 = (if btn_hold_ticks s + 1 \<ge> SHUTDOWN_HOLD_TICKS then SHUTDOWN_WAIT
                else if btn_hold_ticks s + 1 \<ge> REBOOT_HOLD_TICKS then REBOOT_WAIT
                else mode s)"
    by auto
  from update_data_keeps [OF u] draw_interface_eq [OF d]
  have "btn_hold_ticks s' = btn_hold_ticks s1" "mode s' = mode s1"
    by (simp_all split: if_splits)
  with s1 show ?thesis by simp
qed

lemma held_tick_total:
  assumes "pin_level e = 0" and "host_out e \<noteq> None"
  shows "\<exists>out s'. tick e s = (out, Inr s')"
proof -
  obtain s1 where h: "handle_input e s = ([], Inr s1)"
    using handle_input_held [OF assms(1)] by blast
  obtain o2 s2 where u: "update_data e s1 = (o2, Inr s2)"
    using update_data_total [OF assms(2)] by blast
  obtain o3 s3 where d: "draw_interface s2 = (o3, s3)"
    by (cases "draw_interface s2")
  from h u d show ?thesis by (simp add: tick_def)
qed

lemma held_run_result:
  assumes "\<forall>e\<in>set es. pin_level e = 0"
    and "mode s = hold_class (btn_hold_ticks s)"
    and "run_ticks es s = (out, Inr s')"
  shows "btn_hold_ticks s' = btn_hold_ticks s + int (length es)
       \<and> mode s' = hold_class (btn_hold_ticks s + int (length es))"
  using assms
proof (induction es arbitrary: s out)
  case Nil
  then show ?case by simp
next
  case (Cons e es)
  from Cons.prems(3) obtain o1 s1 o2 where
    t: "tick e s = (o1, Inr s1)" and r: "run_ticks es s1 = (o2, Inr s')"
    by (auto split: prod.splits sum.splits)
  from Cons.prems(1) have p: "pin_level e = 0" by simp
  from held_tick_result [OF p t] Cons.prems(2)
  have s1: "btn_hold_ticks s1 = btn_hold_ticks s + 1" "mode s1 = hold_class (btn_hold_ticks s1)"
    by (auto simp: tick_consts)
  from Cons.IH [OF _ s1(2) r] Cons.prems(1) s1(1) show ?case
    by (simp add: add.assoc)
qed

lemma held_run_total:
  assumes "\<forall>e\<in>set es. pin_level e = 0 \<and> host_out e \<noteq> None"
  shows "\<exists>out s'. run_ticks es s = (out, Inr s')"
  using assms
proof (induction es arbitrary: s)
  case Nil
  then show ?case by simp
next
  case (Cons e es)
  then obtain o1 s1 where t: "tick e s = (o1, Inr s1)"
    using held_tick_total [of e s] by auto
  from Cons obtain o2 s2 where "run_ticks es s1 = (o2, Inr s2)" by fastforce
  with t show ?case by simp
qed

text \<open>
  C5. Start in the idle state (\<open>mode = INFO\<close>, \<open>btn_hold_ticks = 0\<close>) and let the button be
  down for the \<open>H = length es\<close> ticks \<open>es\<close>. Whenever the loop is still running after them,
  \<open>btn_hold_ticks = H\<close> and the mode is \<open>SHUTDOWN_WAIT\<close> if \<open>H\<close> is at least the shutdown
  threshold, else \<open>REBOOT_WAIT\<close> if \<open>H\<close> is at least the reboot threshold, else \<open>INFO\<close>;
  and the loop is still running whenever no hostname lookup raised in those ticks.
\<close>

theorem C5_hold_classification:
  assumes "\<forall>e\<in>set es. pin_level e = 0"
    and "mode s = INFO" and "btn_hold_ticks s = 0"
  shows "(\<forall>out s'. run_ticks es s = (out, Inr s') \<longrightarrow>
            btn_hold_ticks s' = int (length es)
            \<and> mode s' = (if int (length es) \<ge> SHUTDOWN_HOLD_TICKS then SHUTDOWN_WAIT
                         else if int (length es) \<ge> REBOOT_HOLD_TICKS then REBOOT_WAIT
                         else INFO))
       \<and> ((\<forall>e\<in>set es. host_out e \<noteq> None) \<longrightarrow> (\<exists>out s'. run_ticks es s = (out, Inr s')))"
proof -
  have m: "mode s = hold_class (btn_hold_ticks s)"
    using assms(2,3) by (simp add: tick_consts)
  show ?thesis
    using held_run_result [OF assms(1) m] held_run_total [of es s] assms(1,3)
    by auto
qed

text \<open>Sixty held ticks from the initial state: the loop runs on, in \<open>SHUTDOWN_WAIT\<close>.\<close>

theorem C5_witness:
  "pin_level held_sample = 0 \<and> host_out held_sample \<noteq> None
   \<and> mode AppState_init = INFO \<and> btn_hold_ticks AppState_init = 0
   \<and> (\<exists>out s'. run_ticks (replicate 60 held_sample) AppState_init = (out, Inr s')
         \<and> btn_hold_ticks s' = 60 \<and> mode s' = SHUTDOWN_WAIT)"
proof -
  have a: "\<forall>e\<in>set (replicate 60 held_sample). pin_level e = 0"
    by (simp add: held_sample_def)
  have b: "mode AppState_init = INFO" and c: "btn_hold_ticks AppState_init = 0"
    by (simp_all add: AppState_init_def)
  have d: "\<forall>e\<in>set (replicate 60 held_sample). host_out e \<noteq> None"
    by (simp add: held_sample_def)
  from C5_hold_classification [OF a b c] d b c show ?thesis
    by (auto simp: tick_consts held_sample_def)
qed

subsection \<open>Releasing the button\<close>

text \<open>
  C6. A release (button up, \<open>btn_hold_ticks > 0\<close>) in mode \<open>REBOOT_WAIT\<close> pushes the
  "Rebooting..." overlay, starts \<open>sudo reboot now\<close> once, starts no shutdown, and exits: the
  tick ends there and no later tick runs. In mode \<open>SHUTDOWN_WAIT\<close> the same holds with
  \<open>sudo shutdown now\<close> once and no reboot.
\<close>

theorem C6_release_fires_pending_action:
  assumes "pin_level e \<noteq> 0" and "btn_hold_ticks s > 0"
  shows "(mode s = REBOOT_WAIT \<longrightarrow>
            run_ticks (e # es) s =
              ([ShowFrame (MessageOverlay ''Rebooting...''), SysCommand ''sudo reboot now''],
               Inl (Exit 0))
            \<and> handle_input e s = run_ticks (e # es) s
            \<and> count_list (fst (handle_input e s)) (SysCommand ''sudo reboot now'') = 1
            \<and> SysCommand ''sudo shutdown now'' \<notin> set (fst (handle_input e s)))
       \<and> (mode s = SHUTDOWN_WAIT \<longrightarrow>
            run_ticks (e # es) s =
              ([ShowFrame (MessageOverlay ''Shutting Down...''), SysCommand ''sudo shutdown now''],
               Inl (Exit 0))
            \<and> handle_input e s = run_ticks (e # es) s
            \<and> count_list (fst (handle_input e s)) (SysCommand ''sudo shutdown now'') = 1
            \<and> SysCommand ''sudo reboot now'' \<notin> set (fst (handle_input e s)))"
  using assms
  by (simp add: handle_input_def tick_def draw_overlay_def run_sys_command_def)

text \<open>
  The states after 30 and after 60 held ticks, released on the next tick (a further tick
  is supplied and does not run).
\<close>

theorem C6_witness:
  "pin_level idle_sample \<noteq> 0
   \<and> snd (run_ticks (replicate 30 held_sample) AppState_init)
       = Inr (long_hold_sample 30 REBOOT_WAIT)
   \<and> btn_hold_ticks (long_hold_sample 30 REBOOT_WAIT) > 0
   \<and> mode (long_hold_sample 30 REBOOT_WAIT) = REBOOT_WAIT
   \<and> run_ticks [idle_sample, idle_sample] (long_hold_sample 30 REBOOT_WAIT) =
       ([ShowFrame (MessageOverlay ''Rebooting...''), SysCommand ''sudo reboot now''],
        Inl (Exit 0))
   \<and> snd (run_ticks (replicate 60 held_sample) AppState_init)
       = Inr (long_hold_sample 60 SHUTDOWN_WAIT)
   \<and> btn_hold_ticks (long_hold_sample 60 SHUTDOWN_WAIT) > 0
   \<and> mode (long_hold_sample 60 SHUTDOWN_WAIT) = SHUTDOWN_WAIT
   \<and> run_ticks [idle_sample, idle_sample] (long_hold_sample 60 SHUTDOWN_WAIT) =
       ([ShowFrame (MessageOverlay ''Shutting Down...''), SysCommand ''sudo shutdown now''],
        Inl (Exit 0))"
proof -
  have p: "pin_level idle_sample \<noteq> 0" by (simp add: idle_sample_def)
  have r30: "snd (run_ticks (replicate 30 held_sample) AppState_init)
               = Inr (long_hold_sample 30 REBOOT_WAIT)"
    by code_simp
  have r60: "snd (run_ticks (replicate 60 held_sample) AppState_init)
               = Inr (long_hold_sample 60 SHUTDOWN_WAIT)"
    by code_simp
  have h30: "btn_hold_ticks (long_hold_sample 30 REBOOT_WAIT) > 0"
    and h60: "btn_hold_ticks (long_hold_sample 60 SHUTDOWN_WAIT) > 0"
    and m30: "mode (long_hold_sample 30 REBOOT_WAIT) = REBOOT_WAIT"
    and m60: "mode (long_hold_sample 60 SHUTDOWN_WAIT) = SHUTDOWN_WAIT"
    by (simp_all add: long_hold_sample_def)
  from C6_release_fires_pending_action [OF p h30, of "[idle_sample]"]
       C6_release_fires_pending_action [OF p h60, of "[idle_sample]"]
       p r30 r60 h30 h60 m30 m60
  show ?thesis by simp
qed

text \<open>
  C7. A release in mode \<open>INFO\<close> (a short tap) has no effect on the outside, so it starts no
  power action, and leaves \<open>mode = INFO\<close>, \<open>screen = NETWORK\<close>, \<open>cycle_tick = 0\<close>,
  \<open>btn_hold_ticks = 0\<close>; the other fields keep their values.
\<close>

theorem C7_tap_resets_without_action:
  assumes "pin_level e \<noteq> 0" and "btn_hold_ticks s > 0" and "mode s = INFO"
  shows "\<exists>s'. handle_input e s = ([], Inr s')
           \<and> mode s' = INFO \<and> screen s' = NETWORK \<and> cycle_tick s' = 0 \<and> btn_hold_ticks s' = 0
           \<and> s' = s\<lparr> mode := INFO, screen := NETWORK, cycle_tick := 0, btn_hold_ticks := 0 \<rparr>"
  using assms by (simp add: handle_input_def)

text \<open>The state after three held ticks, then released.\<close>

theorem C7_witness:
  "pin_level idle_sample \<noteq> 0
   \<and> snd (run_ticks (replicate 3 held_sample) AppState_init) = Inr short_hold_sample
   \<and> btn_hold_ticks short_hold_sample > 0 \<and> mode short_hold_sample = INFO
   \<and> handle_input idle_sample short_hold_sample =
       ([], Inr (short_hold_sample\<lparr> cycle_tick := 0, btn_hold_ticks := 0 \<rparr>))"
proof -
  have p: "pin_level idle_sample \<noteq> 0" by (simp add: idle_sample_def)
  have r: "snd (run_ticks (replicate 3 held_sample) AppState_init) = Inr short_hold_sample"
    by code_simp
  have h: "btn_hold_ticks short_hold_sample > 0" and m: "mode short_hold_sample = INFO"
    by (simp_all add: short_hold_sample_def)
  from C7_tap_resets_without_action [OF p h m] p r h m
  show ?thesis by (auto simp: short_hold_sample_def)
qed

subsection \<open>The data refresher\<close>

text \<open>
  C9. Whenever \<open>mode \<noteq> INFO\<close> or \<open>display_timer \<le> 0\<close>, \<open>update_data\<close> returns the state
  it was given and does nothing to the outside.
\<close>

theorem C9_refresher_frozen:
  "mode s \<noteq> INFO \<or> display_timer s \<le> 0 \<Longrightarrow> update_data e s = ([], Inr s)"
  by (auto simp: update_data_def)

text \<open>Asleep (timer 0) in one case, in the reboot menu in the other.\<close>

theorem C9_witness:
  "display_timer asleep_sample \<le> 0
   \<and> update_data idle_sample asleep_sample = ([], Inr asleep_sample)
   \<and> mode (long_hold_sample 30 REBOOT_WAIT) \<noteq> INFO
   \<and> update_data held_sample (long_hold_sample 30 REBOOT_WAIT)
       = ([], Inr (long_hold_sample 30 REBOOT_WAIT))"
proof -
  have a: "mode asleep_sample \<noteq> INFO \<or> display_timer asleep_sample \<le> 0"
    by (simp add: asleep_sample_def)
  have b: "mode (long_hold_sample 30 REBOOT_WAIT) \<noteq> INFO
           \<or> display_timer (long_hold_sample 30 REBOOT_WAIT) \<le> 0"
    by (simp add: long_hold_sample_def)
  from C9_refresher_frozen [OF a, of idle_sample] C9_refresher_frozen [OF b, of held_sample]
  show ?thesis by (simp add: asleep_sample_def long_hold_sample_def)
qed

text \<open>
  C2 (as amended). A failure of the IP lookup is caught inside \<open>get_network_info\<close> and
  replaced by the placeholder "No IP" for the ip component only; the hostname just read is
  kept. So whenever the hostname lookup succeeds the fetch returns a pair, and the refresh
  step returns a state, whatever the IP lookup does.
\<close>

theorem C2_ip_lookup_failure_caught:
  "get_network_info (Some host) None = Inr (host, ''No IP'')
   \<and> get_network_info (Some host) (Some ip) = Inr (host, ip)
   \<and> (\<exists>out s'. update_data (e\<lparr> host_out := Some host \<rparr>) s = (out, Inr s'))"
  by (simp add: get_network_info_def update_data_def Let_def)

text \<open>The first refresh after start, with a failing IP lookup.\<close>

theorem C2_witness:
  "get_network_info (Some ''node1'') None = Inr (''node1'', ''No IP'')
   \<and> update_data (idle_sample\<lparr> ip_out := None \<rparr>) AppState_init =
       ([Query NETWORK],
        Inr (AppState_init\<lparr> cycle_tick := 1, stats_tick := 0,
                            cache_net := (''node1'', ''No IP'') \<rparr>))"
proof -
  have "update_data (idle_sample\<lparr> ip_out := None \<rparr>) AppState_init =
       ([Query NETWORK],
        Inr (AppState_init\<lparr> cycle_tick := 1, stats_tick := 0,
                            cache_net := (''node1'', ''No IP'') \<rparr>))"
    by (simp add: update_data_def get_network_info_def idle_sample_def AppState_init_def
        tick_consts)
  with C2_ip_lookup_failure_caught [of "''node1''" "''10.0.0.5''" idle_sample AppState_init]
  show ?thesis by simp
qed

text \<open>
  C2 as stated fails twice. With the IP lookup failing, the pair is not replaced as a
  whole: the hostname is the one just read. With the hostname lookup failing, nothing is
  caught: the exception leaves \<open>get_network_info\<close> and the refresh step.
\<close>

theorem C2_counterexample:
  "get_network_info (Some ''node1'') None = Inr (''node1'', ''No IP'')
   \<and> get_network_info None (Some ''10.0.0.5'') = Inl LookupRaised
   \<and> update_data \<lparr> pin_level = 1, host_out = None, ip_out = Some ''10.0.0.5'',
                    perf_now = (12, 40, 71) \<rparr> AppState_init
       = ([Query NETWORK], Inl LookupRaised)"
  by (simp add: get_network_info_def update_data_def AppState_init_def tick_consts)

lemma no_query_after_refresh:
  assumes "stats_tick s = 0" and "cycle_tick s = 0"
  shows "Query k \<notin> set (fst (tick e s))"
  using assms
  by (auto simp: phase_defs Let_def tick_consts split: if_splits)

text \<open>
  C1 (as amended). In every tick in which \<open>update_data\<close> toggles the screen (\<open>mode = INFO\<close>,
  \<open>display_timer > 0\<close>, \<open>cycle_tick\<close> has reached \<open>INFO_CYCLE_TICKS\<close>), the toggle sets
  \<open>stats_tick\<close> to the trigger value, so the refresh for the newly active screen fires in
  that same call, whatever \<open>stats_tick\<close> was: the call queries exactly the provider of the
  new screen. It returns a state unless the new screen is NETWORK and the hostname lookup
  raises. The state it returns has the screen toggled, \<open>cycle_tick = 0\<close> and
  \<open>stats_tick = 0\<close>, and the tick that follows queries no provider.
\<close>

theorem C1_toggle_refreshes_same_tick:
  assumes "mode s = INFO" and "display_timer s > 0" and "cycle_tick s \<ge> INFO_CYCLE_TICKS"
  shows "fst (update_data e s) = [Query (if screen s = NETWORK then PERFORMANCE else NETWORK)]
       \<and> ((screen s = NETWORK \<or> host_out e \<noteq> None) \<longrightarrow> (\<exists>s'. snd (update_data e s) = Inr s'))
       \<and> (\<forall>s'. snd (update_data e s) = Inr s' \<longrightarrow>
             screen s' = (if screen s = NETWORK then PERFORMANCE else NETWORK)
             \<and> cycle_tick s' = 0 \<and> stats_tick s' = 0
             \<and> (\<forall>e' k. Query k \<notin> set (fst (tick e' (snd (draw_interface s'))))))"
proof -
  have a: "fst (update_data e s) = [Query (if screen s = NETWORK then PERFORMANCE else NETWORK)]"
    using assms
    by (cases "screen s")
       (simp_all add: update_data_def Let_def get_network_info_def split: option.splits)
  have b: "(screen s = NETWORK \<or> host_out e \<noteq> None) \<longrightarrow> (\<exists>s'. snd (update_data e s) = Inr s')"
    using assms
    by (cases "screen s")
       (auto simp: update_data_def Let_def get_network_info_def split: option.splits)
  have c: "screen s' = (if screen s = NETWORK then PERFORMANCE else NETWORK)
           \<and> cycle_tick s' = 0 \<and> stats_tick s' = 0"
    if "snd (update_data e s) = Inr s'" for s'
    using assms that
    by (cases "screen s")
       (auto simp: update_data_def Let_def get_network_info_def split: option.splits)
  have d: "Query k \<notin> set (fst (tick e' (snd (draw_interface s'))))"
    if "snd (update_data e s) = Inr s'" for s' e' k
    using c [OF that] no_query_after_refresh [of "snd (draw_interface s')" k e']
    by (simp add: draw_interface_counters)
  from a b c d show ?thesis by blast
qed

text \<open>The state after 20 idle ticks, where the toggle is due although \<open>stats_tick = 1\<close>.\<close>

theorem C1_witness:
  "mode toggle_due_sample = INFO \<and> display_timer toggle_due_sample > 0
   \<and> cycle_tick toggle_due_sample \<ge> INFO_CYCLE_TICKS
   \<and> fst (update_data idle_sample toggle_due_sample) = [Query PERFORMANCE]
   \<and> (\<exists>s'. snd (update_data idle_sample toggle_due_sample) = Inr s'
          \<and> screen s' = PERFORMANCE \<and> cycle_tick s' = 0 \<and> stats_tick s' = 0
          \<and> Query PERFORMANCE \<notin> set (fst (tick idle_sample (snd (draw_interface s')))))"
proof -
  have a: "mode toggle_due_sample = INFO" and b: "display_timer toggle_due_sample > 0"
    and c: "cycle_tick toggle_due_sample \<ge> INFO_CYCLE_TICKS"
    and d: "screen toggle_due_sample = NETWORK"
    by (simp_all add: toggle_due_sample_def tick_consts)
  from C1_toggle_refreshes_same_tick [OF a b c, of idle_sample] a b c d
  show ?thesis by auto
qed

text \<open>
  C1 as stated fails. After 20 idle ticks from the initial state the toggle is due. The
  21st tick toggles to PERFORMANCE and queries the performance provider in that same tick;
  the 22nd tick queries nothing.
\<close>

theorem C1_counterexample:
  "snd (run_ticks (replicate 20 idle_sample) AppState_init) = Inr toggle_due_sample
   \<and> tick idle_sample toggle_due_sample =
       ([Query PERFORMANCE, ShowFrame (PerformanceLines 12 40 71)],
        Inr (toggle_due_sample\<lparr> screen := PERFORMANCE, display_timer := 129, stats_tick := 0,
                                 cycle_tick := 0, cache_perf := (12, 40, 71) \<rparr>))
   \<and> tick idle_sample
        (toggle_due_sample\<lparr> screen := PERFORMANCE, display_timer := 129, stats_tick := 0,
                             cycle_tick := 0, cache_perf := (12, 40, 71) \<rparr>) =
       ([ShowFrame (PerformanceLines 12 40 71)],
        Inr (toggle_due_sample\<lparr> screen := PERFORMANCE, display_timer := 128, stats_tick := 1,
                                 cycle_tick := 1, cache_perf := (12, 40, 71) \<rparr>))"
  by code_simp

subsection \<open>The cycle period\<close>

lemma idle_tick_counts:
  assumes "pin_level e \<noteq> 0" and "host_out e \<noteq> None"
    and "mode s = INFO" and "btn_hold_ticks s = 0"
    and "display_timer s > 0" and "cycle_tick s < INFO_CYCLE_TICKS"
  shows "\<exists>out s'. tick e s = (out, Inr s') \<and> screen s' = screen s
           \<and> cycle_tick s' = cycle_tick s + 1 \<and> mode s' = INFO \<and> btn_hold_ticks s' = 0
           \<and> display_timer s' = display_timer s - 1"
  using assms
  by (auto simp: phase_defs Let_def split: option.splits)

lemma idle_tick_toggles:
  assumes "pin_level e \<noteq> 0" and "host_out e \<noteq> None"
    and "mode s = INFO" and "btn_hold_ticks s = 0"
    and "display_timer s > 0" and "cycle_tick s \<ge> INFO_CYCLE_TICKS"
  shows "\<exists>out s'. tick e s = (out, Inr s') \<and> screen s' \<noteq> screen s
           \<and> cycle_tick s' = 0 \<and> mode s' = INFO \<and> btn_hold_ticks s' = 0
           \<and> display_timer s' = display_timer s - 1"
  using assms
  by (cases "screen s") (auto simp: phase_defs Let_def split: option.splits)

lemma idle_run_counts:
  assumes "\<forall>e\<in>set es. pin_level e \<noteq> 0 \<and> host_out e \<noteq> None"
    and "mode s = INFO" and "btn_hold_ticks s = 0"
    and "int (length es) \<le> display_timer s"
    and "cycle_tick s + int (length es) \<le> INFO_CYCLE_TICKS"
  shows "\<exists>out s'. run_ticks es s = (out, Inr s') \<and> screen s' = screen s
           \<and> cycle_tick s' = cycle_tick s + int (length es) \<and> mode s' = INFO
           \<and> btn_hold_ticks s' = 0 \<and> display_timer s' = display_timer s - int (length es)"
  using assms
proof (induction es arbitrary: s)
  case Nil
  then show ?case by simp
next
  case (Cons e es)
  from Cons.prems have e: "pin_level e \<noteq> 0" "host_out e \<noteq> None"
    and d: "display_timer s > 0" and c: "cycle_tick s < INFO_CYCLE_TICKS"
    by auto
  from idle_tick_counts [OF e Cons.prems(2,3) d c] obtain o1 s1 where
    t: "tick e s = (o1, Inr s1)" and s1: "screen s1 = screen s"
    "cycle_tick s1 = cycle_tick s + 1" "mode s1 = INFO" "btn_hold_ticks s1 = 0"
    "display_timer s1 = display_timer s - 1"
    by blast
  have "\<exists>out s'. run_ticks es s1 = (out, Inr s') \<and> screen s' = screen s1
           \<and> cycle_tick s' = cycle_tick s1 + int (length es) \<and> mode s' = INFO
           \<and> btn_hold_ticks s' = 0 \<and> display_timer s' = display_timer s1 - int (length es)"
    using Cons.prems s1 by (intro Cons.IH) auto
  then obtain o2 s2 where r: "run_ticks es s1 = (o2, Inr s2)" and s2: "screen s2 = screen s1"
    "cycle_tick s2 = cycle_tick s1 + int (length es)" "mode s2 = INFO"
    "btn_hold_ticks s2 = 0" "display_timer s2 = display_timer s1 - int (length es)"
    by blast
  from t r have "run_ticks (e # es) s = (o1 @ o2, Inr s2)" by simp
  with s1 s2 show ?case by simp
qed

lemma run_ticks_snoc:
  "run_ticks es s = (o1, Inr s1) \<Longrightarrow> tick e s1 = (o2, r) \<Longrightarrow>
   run_ticks (es @ [e]) s = (o1 @ o2, r)"
proof (induction es arbitrary: s o1)
  case Nil
  then show ?case by (cases r) simp_all
next
  case (Cons a es)
  from Cons.prems(1) obtain oa sa ob where
    t: "tick a s = (oa, Inr sa)" and rr: "run_ticks es sa = (ob, Inr s1)" and o: "o1 = oa @ ob"
    by (auto split: prod.splits sum.splits)
  from Cons.IH [OF rr Cons.prems(2)] t o show ?case by simp
qed

text \<open>
  The screen after each of the first 21 ticks from the initial state, button up: NETWORK
  after ticks 0 to 20, PERFORMANCE after tick 21.
\<close>

lemma first_toggle_trace:
  "map (\<lambda>n. map_sum id screen (snd (run_ticks (replicate n idle_sample) AppState_init))) [0..<22]
     = replicate 21 (Inr NETWORK) @ [Inr PERFORMANCE]"
  by code_simp

text \<open>
  C4 (what the code does; the claim asks for one toggle every \<open>INFO_CYCLE_TICKS\<close> ticks).
  Start a cycle: \<open>mode = INFO\<close>, button up and idle, \<open>cycle_tick = 0\<close>, the display awake
  for more than \<open>INFO_CYCLE_TICKS\<close> ticks, lookups working. Then for every number of ticks
  up to \<open>INFO_CYCLE_TICKS\<close> the screen is still the one the cycle began with and
  \<open>cycle_tick\<close> equals the number of ticks; the toggle comes with the tick after the
  \<open>INFO_CYCLE_TICKS\<close>-th, which also sets \<open>cycle_tick\<close> back to 0. So the screen toggles
  once every \<open>INFO_CYCLE_TICKS + 1 = 21\<close> ticks, not once every 20.
\<close>

theorem C4_toggle_takes_one_tick_more:
  assumes "\<forall>e\<in>set es. pin_level e \<noteq> 0 \<and> host_out e \<noteq> None"
    and "pin_level e \<noteq> 0 \<and> host_out e \<noteq> None"
    and "mode s = INFO" and "btn_hold_ticks s = 0" and "cycle_tick s = 0"
    and "display_timer s > INFO_CYCLE_TICKS"
    and "int (length es) \<le> INFO_CYCLE_TICKS"
  shows "(\<exists>out s'. run_ticks es s = (out, Inr s') \<and> screen s' = screen s
            \<and> cycle_tick s' = int (length es))
       \<and> (int (length es) = INFO_CYCLE_TICKS \<longrightarrow>
            (\<exists>out s'. run_ticks (es @ [e]) s = (out, Inr s') \<and> screen s' \<noteq> screen s
               \<and> cycle_tick s' = 0))"
proof -
  from idle_run_counts [OF assms(1,3,4)] assms(5,6,7) obtain o1 s1 where
    r: "run_ticks es s = (o1, Inr s1)" and s1: "screen s1 = screen s"
    "cycle_tick s1 = int (length es)" "mode s1 = INFO" "btn_hold_ticks s1 = 0"
    "display_timer s1 = display_timer s - int (length es)"
    by auto
  have "\<exists>out s'. run_ticks (es @ [e]) s = (out, Inr s') \<and> screen s' \<noteq> screen s
          \<and> cycle_tick s' = 0"
    if full: "int (length es) = INFO_CYCLE_TICKS"
  proof -
    from s1 full assms(6) have d: "display_timer s1 > 0"
      and c: "cycle_tick s1 \<ge> INFO_CYCLE_TICKS"
      by simp_all
    from idle_tick_toggles [OF conjunct1 [OF assms(2)] conjunct2 [OF assms(2)] s1(3,4) d c]
    obtain o2 s2 where t: "tick e s1 = (o2, Inr s2)"
      and s2: "screen s2 \<noteq> screen s1" "cycle_tick s2 = 0"
      by blast
    from run_ticks_snoc [OF r t] s2 s1(1) show ?thesis by auto
  qed
  with r s1 show ?thesis by auto
qed

text \<open>
  From the initial state: after the 20 ticks of one configured cycle period the screen has
  not toggled; it toggles on the 21st.
\<close>

theorem C4_witness:
  "pin_level idle_sample \<noteq> 0 \<and> host_out idle_sample \<noteq> None
   \<and> mode AppState_init = INFO \<and> btn_hold_ticks AppState_init = 0
   \<and> cycle_tick AppState_init = 0 \<and> display_timer AppState_init > INFO_CYCLE_TICKS
   \<and> int (length (replicate 20 idle_sample)) = INFO_CYCLE_TICKS
   \<and> (\<exists>out s'. run_ticks (replicate 20 idle_sample) AppState_init = (out, Inr s')
         \<and> screen s' = NETWORK \<and> cycle_tick s' = 20)
   \<and> (\<exists>out s'. run_ticks (replicate 20 idle_sample @ [idle_sample]) AppState_init
                  = (out, Inr s')
         \<and> screen s' = PERFORMANCE \<and> cycle_tick s' = 0)"
proof -
  have a: "\<forall>e\<in>set (replicate 20 idle_sample). pin_level e \<noteq> 0 \<and> host_out e \<noteq> None"
    and b: "pin_level idle_sample \<noteq> 0 \<and> host_out idle_sample \<noteq> None"
    by (simp_all add: idle_sample_def)
  have c: "mode AppState_init = INFO" and d: "btn_hold_ticks AppState_init = 0"
    and f: "cycle_tick AppState_init = 0" and g: "display_timer AppState_init > INFO_CYCLE_TICKS"
    and n: "screen AppState_init = NETWORK"
    by (simp_all add: AppState_init_def tick_consts)
  have h: "int (length (replicate 20 idle_sample)) \<le> INFO_CYCLE_TICKS"
    and i: "int (length (replicate 20 idle_sample)) = INFO_CYCLE_TICKS"
    by (simp_all add: tick_consts)
  have p: "\<And>k. k \<noteq> NETWORK \<Longrightarrow> k = PERFORMANCE"
    by (metis InfoScreen.exhaust)
  note w = C4_toggle_takes_one_tick_more [OF a b c d f g h, unfolded n]
  from w obtain o1 s1 where
    r1: "run_ticks (replicate 20 idle_sample) AppState_init = (o1, Inr s1)"
    "screen s1 = NETWORK" "cycle_tick s1 = int (length (replicate 20 idle_sample))"
    by blast
  from w i obtain o2 s2 where
    r2: "run_ticks (replicate 20 idle_sample @ [idle_sample]) AppState_init = (o2, Inr s2)"
    "screen s2 \<noteq> NETWORK" "cycle_tick s2 = 0"
    by blast
  from r1
  have x: "\<exists>out s'. run_ticks (replicate 20 idle_sample) AppState_init = (out, Inr s')
             \<and> screen s' = NETWORK \<and> cycle_tick s' = 20"
    by simp
  from r2 p
  have y: "\<exists>out s'. run_ticks (replicate 20 idle_sample @ [idle_sample]) AppState_init
                      = (out, Inr s')
             \<and> screen s' = PERFORMANCE \<and> cycle_tick s' = 0"
    by blast
  from b c d f g i x y show ?thesis by blast
qed

subsection \<open>The renderer and the display timer\<close>

lemma tick_ends_with_frame:
  assumes "tick e s = (out, Inr s')"
  shows "\<exists>pre f. out = pre @ [ShowFrame f]"
proof -
  from assms obtain o1 s1 o2 s2 o3 where
    h: "handle_input e s = (o1, Inr s1)" and u: "update_data e s1 = (o2, Inr s2)"
    and d: "draw_interface s2 = (o3, s')" and out: "out = o1 @ o2 @ o3"
    by (auto simp: tick_Inr_iff)
  from d obtain f where "o3 = [ShowFrame f]"
    by (auto simp: draw_interface_def split: if_splits)
  with out have "out = (o1 @ o2) @ [ShowFrame f]" by simp
  then show ?thesis by blast
qed

lemma tick_timer_value:
  assumes "tick e s = (out, Inr s')"
  shows "display_timer s' =
           (if pin_level e = 0 then SCREEN_TIMEOUT_TICKS - 1
            else if display_timer s > 0 then display_timer s - 1 else display_timer s)"
proof -
  from assms obtain o1 s1 o2 s2 o3 where
    h: "handle_input e s = (o1, Inr s1)" and u: "update_data e s1 = (o2, Inr s2)"
    and d: "draw_interface s2 = (o3, s')"
    by (auto simp: tick_Inr_iff)
  from h have "display_timer s1 =
                 (if pin_level e = 0 then SCREEN_TIMEOUT_TICKS else display_timer s)"
    by (auto simp: handle_input_def Let_def split: if_splits)
  with update_data_keeps(3) [OF u] draw_interface_eq [OF d] show ?thesis
    by (auto simp: tick_consts)
qed

text \<open>
  C8 (as amended). In every reachable state \<open>display_timer\<close> is non-negative. The renderer
  decrements \<open>display_timer\<close> by exactly 1 if and only if \<open>display_timer > 0\<close> when the
  renderer starts, whatever mode and screen it draws, and changes nothing else; it hands
  exactly one frame to the display on every call, the blank one when the timer is 0. Over
  a whole tick that the loop completes: the last effect is a frame pushed to the display;
  with the button up, the timer goes down by 1 exactly when it was positive at the start
  of the tick; with the button down, the input phase first sets the timer to its maximum,
  so the renderer decrements it to \<open>SCREEN_TIMEOUT_TICKS - 1\<close> whatever it was at the start
  of the tick.
\<close>

theorem C8_timer_and_frame:
  "(reachable s \<longrightarrow> 0 \<le> display_timer s)
   \<and> ((display_timer (snd (draw_interface s)) = display_timer s - 1) = (display_timer s > 0))
   \<and> snd (draw_interface s) =
       s\<lparr> display_timer := (if display_timer s > 0 then display_timer s - 1 else display_timer s) \<rparr>
   \<and> (\<exists>f. fst (draw_interface s) = [ShowFrame f])
   \<and> (display_timer s \<le> 0 \<longrightarrow> fst (draw_interface s) = [ShowFrame Blank])
   \<and> (\<forall>out s'. tick e s = (out, Inr s') \<longrightarrow>
         (\<exists>pre f. out = pre @ [ShowFrame f])
         \<and> display_timer s' =
             (if pin_level e = 0 then SCREEN_TIMEOUT_TICKS - 1
              else if display_timer s > 0 then display_timer s - 1 else display_timer s))"
proof -
  have a: "reachable s \<longrightarrow> 0 \<le> display_timer s"
    using reachable_timer by blast
  have b: "snd (draw_interface s) =
       s\<lparr> display_timer := (if display_timer s > 0 then display_timer s - 1 else display_timer s) \<rparr>"
    by (simp add: draw_interface_def)
  have c: "(display_timer (snd (draw_interface s)) = display_timer s - 1) = (display_timer s > 0)"
    by (simp add: b)
  have d: "\<exists>f. fst (draw_interface s) = [ShowFrame f]"
    by (simp add: draw_interface_def)
  have e: "display_timer s \<le> 0 \<longrightarrow> fst (draw_interface s) = [ShowFrame Blank]"
    by (simp add: draw_interface_def)
  from a b c d e tick_ends_with_frame tick_timer_value show ?thesis by blast
qed

text \<open>
  The state after 150 idle ticks (asleep), rendered and then run through an idle tick; and
  the state after 20 idle ticks (awake), rendered.
\<close>

theorem C8_witness:
  "reachable asleep_sample \<and> 0 \<le> display_timer asleep_sample
   \<and> display_timer asleep_sample \<le> 0
   \<and> draw_interface asleep_sample = ([ShowFrame Blank], asleep_sample)
   \<and> tick idle_sample asleep_sample = ([ShowFrame Blank], Inr asleep_sample)
   \<and> reachable toggle_due_sample \<and> 0 < display_timer toggle_due_sample
   \<and> draw_interface toggle_due_sample =
       ([ShowFrame (NetworkLines ''node1'' ''10.0.0.5'')],
        toggle_due_sample\<lparr> display_timer := 129 \<rparr>)"
proof -
  have z: "display_timer asleep_sample \<le> 0" and t: "tick idle_sample asleep_sample = ([ShowFrame Blank], Inr asleep_sample)"
    and p: "0 < display_timer toggle_due_sample"
    and f: "fst (draw_interface toggle_due_sample) = [ShowFrame (NetworkLines ''node1'' ''10.0.0.5'')]"
    by code_simp+
  from C8_timer_and_frame [of asleep_sample idle_sample]
       C8_timer_and_frame [of toggle_due_sample idle_sample]
       reachable_asleep reachable_toggle_due z t p f
  show ?thesis
    by (auto simp: prod_eq_iff toggle_due_sample_def)
qed

text \<open>
  C8 as stated fails. After 150 idle ticks from the initial state \<open>display_timer\<close> is 0. In
  the next tick the button is down: the timer is 0 at the start of that tick, and still the
  renderer draws content and decrements the timer by exactly 1, from 150 to 149.
\<close>

theorem C8_counterexample:
  "snd (run_ticks (replicate 150 idle_sample) AppState_init) = Inr asleep_sample
   \<and> display_timer asleep_sample = 0
   \<and> tick held_sample asleep_sample =
       ([ShowFrame (PerformanceLines 12 40 71)],
        Inr (asleep_sample\<lparr> display_timer := 149, btn_hold_ticks := 1,
                              stats_tick := 4, cycle_tick := 4 \<rparr>))
   \<and> draw_interface (asleep_sample\<lparr> display_timer := 150, btn_hold_ticks := 1,
                                     stats_tick := 4, cycle_tick := 4 \<rparr>) =
       ([ShowFrame (PerformanceLines 12 40 71)],
        asleep_sample\<lparr> display_timer := 149, btn_hold_ticks := 1,
                         stats_tick := 4, cycle_tick := 4 \<rparr>)"
  by code_simp

end
